theory Spec2Isabelle
  imports Complex_Main "HOL-Library.Word"
begin

unbundle bit_operations_syntax

section \<open>Python values used by the driver\<close>

text \<open>
  A Python \<open>bytes\<close> object is a sequence of integers in the range 0..255: a list of
  8-bit words.  All other integers of the program are Python's unbounded \<open>int\<close>.
  Every exception the modelled code can raise is a value of \<open>py_error\<close>; the
  \<open>ValueError\<close> of \<open>build_request\<close> carries the offending function code.
\<close>

type_synonym byte = "8 word"
type_synonym bytes = "byte list"

datatype py_error =
    ValueError int
  | StructError
  | IndexError
  | AttributeError
  | SerialException
  | UnicodeError

text \<open>
  The module-level \<open>logger\<close> is a sink of levelled messages.  A message is kept as a
  constructor carrying the values the source interpolates into the text, not as the
  formatted string.
\<close>

datatype log_level = DEBUG | INFO | ERROR

datatype log_msg =
    Connected string
  | Failed_to_connect
  | Disconnected
  | Not_connected
  | Unknown_register string
  | CRC_check_failed
  | Sent_read_request string
  | Read_value string "int option"
  | Error_reading_register py_error
  | Sent_write_request string int
  | Written string int
  | Error_writing_register py_error
  | Flow_rate_out_of_range rat
  | Set_flow_rate rat
  | Invalid_memory_slot int
  | Saving_to_memory int
  | Loading_from_memory int
  | Sent string
  | Received string
  | Error_sending_command py_error

type_synonym log_entry = "log_level \<times> log_msg"

subsection \<open>Slicing and indexing\<close>

text \<open>
  Python clamps slice bounds to the sequence and counts negative bounds from the end,
  so a slice never raises; indexing raises \<open>IndexError\<close> out of range.
\<close>

definition norm_bound :: "nat \<Rightarrow> int \<Rightarrow> nat" where
  "norm_bound n i = (if i < 0 then nat (max 0 (int n + i)) else min n (nat i))"

definition py_slice :: "int option \<Rightarrow> int option \<Rightarrow> 'a list \<Rightarrow> 'a list" where
  "py_slice start stop xs =
     (let n = length xs;
          lo = (case start of None \<Rightarrow> 0 | Some i \<Rightarrow> norm_bound n i);
          hi = (case stop of None \<Rightarrow> n | Some j \<Rightarrow> norm_bound n j)
      in take (hi - lo) (drop lo xs))"

definition py_index :: "'a list \<Rightarrow> int \<Rightarrow> py_error + 'a" where
  "py_index xs i =
     (if - int (length xs) \<le> i \<and> i < int (length xs)
      then Inr (xs ! nat (if i < 0 then i + int (length xs) else i))
      else Inl IndexError)"

subsection \<open>The \<open>struct\<close> module\<close>

text \<open>
  Only the format characters \<open>B\<close> (unsigned char) and \<open>H\<close> (unsigned short) occur, with
  the byte-order prefixes \<open>>\<close> (big-endian, \<open>True\<close> below) and \<open><\<close> (little-endian).
  \<open>struct.pack\<close> raises \<open>struct.error\<close> when an argument is out of the field's range or
  is not an integer (\<open>None\<close>); \<open>struct.unpack\<close> raises it when the buffer has not
  exactly the size of the format.
\<close>

datatype field = B | H

fun pack_field :: "bool \<Rightarrow> field \<Rightarrow> int option \<Rightarrow> py_error + bytes" where
  "pack_field be f None = Inl StructError"
| "pack_field be B (Some v) =
     (if 0 \<le> v \<and> v \<le> 255 then Inr [word_of_int v] else Inl StructError)"
| "pack_field be H (Some v) =
     (if 0 \<le> v \<and> v \<le> 65535
      then Inr (if be then [word_of_int (v div 256), word_of_int (v mod 256)]
                else [word_of_int (v mod 256), word_of_int (v div 256)])
      else Inl StructError)"

fun struct_pack :: "bool \<Rightarrow> (field \<times> int option) list \<Rightarrow> py_error + bytes" where
  "struct_pack be [] = Inr []"
| "struct_pack be ((f, v) # rest) =
     (case pack_field be f v of
        Inl e \<Rightarrow> Inl e
      | Inr bs \<Rightarrow> (case struct_pack be rest of Inl e \<Rightarrow> Inl e | Inr cs \<Rightarrow> Inr (bs @ cs)))"

fun struct_unpack_H :: "bool \<Rightarrow> bytes \<Rightarrow> py_error + int" where
  "struct_unpack_H be [a, b] =
     Inr (if be then 256 * uint a + uint b else uint a + 256 * uint b)"
| "struct_unpack_H be bs = Inl StructError"

section \<open>Frame codec: class \<open>ModbusRTU\<close>\<close>

subsection \<open>\<open>calculate_crc16\<close>\<close>

text \<open>
  The inner loop \<open>for _ in range(8)\<close> is \<open>crc_bits 8\<close>, the outer loop over the bytes is
  \<open>crc_bytes\<close>; the accumulator is a Python \<open>int\<close>, \<open>>>\<close> is \<open>drop_bit\<close> and
  \<open>^\<close> is \<open>XOR\<close>.
\<close>

fun crc_bits :: "nat \<Rightarrow> int \<Rightarrow> int" where
  "crc_bits 0 crc = crc"
| "crc_bits (Suc n) crc =
     crc_bits n (if crc AND 0x0001 \<noteq> 0 then drop_bit 1 crc XOR 0xA001 else drop_bit 1 crc)"

fun crc_bytes :: "int \<Rightarrow> bytes \<Rightarrow> int" where
  "crc_bytes crc [] = crc"
| "crc_bytes crc (b # data) = crc_bytes (crc_bits 8 (crc XOR uint b)) data"

definition calculate_crc16 :: "bytes \<Rightarrow> int" where
  "calculate_crc16 data = crc_bytes 0xFFFF data"

subsection \<open>\<open>build_request\<close>\<close>

text \<open>
  The parameter \<open>val\<close> is the source's \<open>value: int = None\<close>; \<open>count\<close> defaults to 1 at
  the call sites.
\<close>

definition build_request :: "int \<Rightarrow> int \<Rightarrow> int \<Rightarrow> int option \<Rightarrow> int \<Rightarrow> py_error + bytes" where
  "build_request slave_id function_code register_addr val count =
     (case (if function_code = 3 then
              struct_pack True [(B, Some slave_id), (B, Some function_code),
                                (H, Some register_addr), (H, Some count)]
            else if function_code = 6 then
              struct_pack True [(B, Some slave_id), (B, Some function_code),
                                (H, Some register_addr), (H, val)]
            else if function_code = 16 then
              struct_pack True [(B, Some slave_id), (B, Some function_code),
                                (H, Some register_addr), (H, Some 1), (B, Some 2), (H, val)]
            else Inl (ValueError function_code)) of
        Inl e \<Rightarrow> Inl e
      | Inr data \<Rightarrow>
          (case struct_pack False [(H, Some (calculate_crc16 data))] of
             Inl e \<Rightarrow> Inl e
           | Inr crc \<Rightarrow> Inr (data @ crc)))"

subsection \<open>\<open>parse_response\<close>\<close>

text \<open>
  The result is the returned \<open>Optional[int]\<close>, or the exception raised, paired with the
  messages the call hands to the logger.  \<open>extract_value\<close> is the part of the body after
  the CRC check (the \<open>if\<close>/\<open>elif\<close> on the function code and the final
  \<open>return None\<close>), \<open>decode_at\<close> the \<open>struct.unpack('>H', response[off:off+2])[0]\<close> of
  its two branches.
\<close>

definition decode_at :: "int \<Rightarrow> bytes \<Rightarrow> (py_error + int option) \<times> log_entry list" where
  "decode_at off response =
     (case struct_unpack_H True (py_slice (Some off) (Some (off + 2)) response) of
        Inl e \<Rightarrow> (Inl e, [])
      | Inr v \<Rightarrow> (Inr (Some v), []))"

definition extract_value :: "bytes \<Rightarrow> (py_error + int option) \<times> log_entry list" where
  "extract_value response =
     (case py_index response 1 of
        Inl e \<Rightarrow> (Inl e, [])
      | Inr function_code \<Rightarrow>
          (if function_code = 3 then
             (if length response \<ge> 7 then decode_at 3 response else (Inr None, []))
           else if function_code = 6 then
             (if length response \<ge> 8 then decode_at 4 response else (Inr None, []))
           else (Inr None, [])))"

definition parse_response :: "bytes \<Rightarrow> (py_error + int option) \<times> log_entry list" where
  "parse_response response =
     (if length response < 5 then (Inr None, [])
      else
        (case struct_unpack_H False (py_slice (Some (-2)) None response) of
           Inl e \<Rightarrow> (Inl e, [])
         | Inr received_crc \<Rightarrow>
             (if received_crc \<noteq> calculate_crc16 (py_slice None (Some (-2)) response)
              then (Inr None, [(ERROR, CRC_check_failed)])
              else extract_value response)))"

section \<open>Transaction engine\<close>

subsection \<open>The serial channel\<close>

text \<open>
  A \<open>serial.Serial\<close> object is a channel that is open or closed and the trace of the
  transfer calls made on it.  What the device and the line do during one transaction is
  an input of the model: the write raises, the read raises, or the given bytes are
  what the line delivers before the read timeout (none: the timeout expired).
  A call on a closed port raises pyserial's \<open>PortNotOpenError\<close>, a
  \<open>SerialException\<close>; a call on \<open>None\<close> raises \<open>AttributeError\<close>.  The
  \<open>time.sleep\<close> between write and read has no counterpart here.
\<close>

datatype io_event = Write bytes | Read nat | Readline

record channel =
  is_open :: bool
  trace :: "io_event list"

datatype chan_behaviour = Write_raises | Read_raises | Replies bytes

datatype open_outcome = Opens | Open_raises py_error

definition serial_write ::
  "chan_behaviour \<Rightarrow> bytes \<Rightarrow> channel option \<Rightarrow> channel option \<times> py_error option" where
  "serial_write env data conn =
     (case conn of
        None \<Rightarrow> (None, Some AttributeError)
      | Some ch \<Rightarrow>
          if \<not> is_open ch then (Some ch, Some SerialException)
          else (Some (ch\<lparr>trace := trace ch @ [Write data]\<rparr>),
                if env = Write_raises then Some SerialException else None))"

definition serial_read ::
  "chan_behaviour \<Rightarrow> nat \<Rightarrow> channel option \<Rightarrow> channel option \<times> (py_error + bytes)" where
  "serial_read env n conn =
     (case conn of
        None \<Rightarrow> (None, Inl AttributeError)
      | Some ch \<Rightarrow>
          if \<not> is_open ch then (Some ch, Inl SerialException)
          else (Some (ch\<lparr>trace := trace ch @ [Read n]\<rparr>),
                case env of Replies bs \<Rightarrow> Inr (take n bs) | _ \<Rightarrow> Inl SerialException))"

definition serial_readline ::
  "chan_behaviour \<Rightarrow> channel option \<Rightarrow> channel option \<times> (py_error + bytes)" where
  "serial_readline env conn =
     (case conn of
        None \<Rightarrow> (None, Inl AttributeError)
      | Some ch \<Rightarrow>
          if \<not> is_open ch then (Some ch, Inl SerialException)
          else (Some (ch\<lparr>trace := trace ch @ [Readline]\<rparr>),
                case env of
                  Replies bs \<Rightarrow> Inr (takeWhile (\<lambda>b. b \<noteq> 10) bs @ take 1 (dropWhile (\<lambda>b. b \<noteq> 10) bs))
                | _ \<Rightarrow> Inl SerialException))"

subsection \<open>Session state\<close>

text \<open>
  \<open>pump_session\<close> holds the attributes of an \<open>ISPLab02Controller\<close>;
  \<open>ISPLab02ModbusController\<close> has the same attributes and \<open>slave_id\<close>.  The messages
  given to the module's logger are collected in \<open>logged\<close>.  The methods \<open>connect\<close> and
  \<open>disconnect\<close> have the same body in both classes (up to the line parameters and the
  text of one message) and are modelled once, for both records.
\<close>

record pump_session =
  port :: string
  baudrate :: int
  serial_conn :: "channel option"
  is_connected :: bool
  logged :: "log_entry list"

record modbus_session = pump_session +
  slave_id :: int

definition add_log :: "log_entry \<Rightarrow> 'a pump_session_scheme \<Rightarrow> 'a pump_session_scheme" where
  "add_log e s = s\<lparr>logged := logged s @ [e]\<rparr>"

definition add_logs :: "log_entry list \<Rightarrow> 'a pump_session_scheme \<Rightarrow> 'a pump_session_scheme" where
  "add_logs es s = s\<lparr>logged := logged s @ es\<rparr>"

definition init_controller :: "string \<Rightarrow> int \<Rightarrow> pump_session" where
  "init_controller p b =
     \<lparr>port = p, baudrate = b, serial_conn = None, is_connected = False, logged = []\<rparr>"

definition init_modbus_controller :: "string \<Rightarrow> int \<Rightarrow> int \<Rightarrow> modbus_session" where
  "init_modbus_controller p b sl =
     \<lparr>port = p, baudrate = b, serial_conn = None, is_connected = False, logged = [],
      slave_id = sl\<rparr>"

text \<open>
  \<open>connect\<close> catches \<open>serial.SerialException\<close> only; any other exception of the
  constructor leaves the method.
\<close>

definition connect ::
  "open_outcome \<Rightarrow> 'a pump_session_scheme \<Rightarrow> (py_error + bool) \<times> 'a pump_session_scheme" where
  "connect outcome s =
     (case outcome of
        Opens \<Rightarrow>
          (Inr True,
           add_log (INFO, Connected (port s))
             (s\<lparr>serial_conn := Some \<lparr>is_open = True, trace = []\<rparr>, is_connected := True\<rparr>))
      | Open_raises e \<Rightarrow>
          if e = SerialException then (Inr False, add_log (ERROR, Failed_to_connect) s)
          else (Inl e, s))"

definition disconnect :: "'a pump_session_scheme \<Rightarrow> 'a pump_session_scheme" where
  "disconnect s =
     (case serial_conn s of
        None \<Rightarrow> s
      | Some ch \<Rightarrow>
          if is_connected s then
            add_log (INFO, Disconnected)
              (s\<lparr>serial_conn := Some (ch\<lparr>is_open := False\<rparr>), is_connected := False\<rparr>)
          else s)"

subsection \<open>Class \<open>ISPLab02ModbusController\<close>\<close>

definition REGISTERS :: "(string \<times> int) list" where
  "REGISTERS =
     [(''MODE'', 0x0001), (''FLOW_RATE'', 0x0010), (''VOLUME'', 0x0020),
      (''SYRINGE_DIA'', 0x0030), (''START_STOP'', 0x0040), (''STATUS'', 0x0050),
      (''DIRECTION'', 0x0060), (''LINEAR_SPEED'', 0x0070)]"

text \<open>
  \<open>read_transaction\<close> and \<open>write_transaction\<close> are the \<open>try\<close> blocks of
  \<open>read_register\<close> and \<open>write_register\<close> with their \<open>except Exception\<close> handler and
  the final \<open>return\<close>.
\<close>

definition read_transaction ::
  "chan_behaviour \<Rightarrow> string \<Rightarrow> int \<Rightarrow> modbus_session \<Rightarrow> int option \<times> modbus_session" where
  "read_transaction env register_name register_addr s =
     (case build_request (slave_id s) 3 register_addr None 1 of
        Inl e \<Rightarrow> (None, add_log (ERROR, Error_reading_register e) s)
      | Inr request \<Rightarrow>
          (case serial_write env request (serial_conn s) of
             (conn1, Some e) \<Rightarrow>
               (None, add_log (ERROR, Error_reading_register e) (s\<lparr>serial_conn := conn1\<rparr>))
           | (conn1, None) \<Rightarrow>
               (case serial_read env 256 conn1 of
                  (conn2, Inl e) \<Rightarrow>
                    (None, add_logs [(DEBUG, Sent_read_request register_name),
                                     (ERROR, Error_reading_register e)]
                             (s\<lparr>serial_conn := conn2\<rparr>))
                | (conn2, Inr response) \<Rightarrow>
                    (if response \<noteq> [] then
                       (case parse_response response of
                          (Inl e, msgs) \<Rightarrow>
                            (None, add_logs ((DEBUG, Sent_read_request register_name) # msgs @
                                             [(ERROR, Error_reading_register e)])
                                     (s\<lparr>serial_conn := conn2\<rparr>))
                        | (Inr v, msgs) \<Rightarrow>
                            (v, add_logs ((DEBUG, Sent_read_request register_name) # msgs @
                                          [(DEBUG, Read_value register_name v)])
                                  (s\<lparr>serial_conn := conn2\<rparr>)))
                     else (None, add_log (DEBUG, Sent_read_request register_name)
                                   (s\<lparr>serial_conn := conn2\<rparr>))))))"

definition read_register ::
  "chan_behaviour \<Rightarrow> string \<Rightarrow> modbus_session \<Rightarrow> int option \<times> modbus_session" where
  "read_register env register_name s =
     (if \<not> is_connected s then (None, add_log (ERROR, Not_connected) s)
      else
        (case map_of REGISTERS register_name of
           None \<Rightarrow> (None, add_log (ERROR, Unknown_register register_name) s)
         | Some register_addr \<Rightarrow>
             if register_addr = 0 then (None, add_log (ERROR, Unknown_register register_name) s)
             else read_transaction env register_name register_addr s))"

definition write_transaction ::
  "chan_behaviour \<Rightarrow> string \<Rightarrow> int \<Rightarrow> int \<Rightarrow> modbus_session \<Rightarrow> bool \<times> modbus_session" where
  "write_transaction env register_name register_addr val s =
     (case build_request (slave_id s) 6 register_addr (Some val) 1 of
        Inl e \<Rightarrow> (False, add_log (ERROR, Error_writing_register e) s)
      | Inr request \<Rightarrow>
          (case serial_write env request (serial_conn s) of
             (conn1, Some e) \<Rightarrow>
               (False, add_log (ERROR, Error_writing_register e) (s\<lparr>serial_conn := conn1\<rparr>))
           | (conn1, None) \<Rightarrow>
               (case serial_read env 256 conn1 of
                  (conn2, Inl e) \<Rightarrow>
                    (False, add_logs [(DEBUG, Sent_write_request register_name val),
                                      (ERROR, Error_writing_register e)]
                              (s\<lparr>serial_conn := conn2\<rparr>))
                | (conn2, Inr response) \<Rightarrow>
                    (if response \<noteq> [] then
                       (case parse_response response of
                          (Inl e, msgs) \<Rightarrow>
                            (False, add_logs ((DEBUG, Sent_write_request register_name val) # msgs @
                                              [(ERROR, Error_writing_register e)])
                                      (s\<lparr>serial_conn := conn2\<rparr>))
                        | (Inr result, msgs) \<Rightarrow>
                            (if result \<noteq> None then
                               (True, add_logs ((DEBUG, Sent_write_request register_name val) # msgs @
                                                [(INFO, Written register_name val)])
                                        (s\<lparr>serial_conn := conn2\<rparr>))
                             else
                               (False, add_logs ((DEBUG, Sent_write_request register_name val) # msgs)
                                         (s\<lparr>serial_conn := conn2\<rparr>))))
                     else (False, add_log (DEBUG, Sent_write_request register_name val)
                                    (s\<lparr>serial_conn := conn2\<rparr>))))))"

definition write_register ::
  "chan_behaviour \<Rightarrow> string \<Rightarrow> int \<Rightarrow> modbus_session \<Rightarrow> bool \<times> modbus_session" where
  "write_register env register_name val s =
     (if \<not> is_connected s then (False, add_log (ERROR, Not_connected) s)
      else
        (case map_of REGISTERS register_name of
           None \<Rightarrow> (False, add_log (ERROR, Unknown_register register_name) s)
         | Some register_addr \<Rightarrow>
             if register_addr = 0 then (False, add_log (ERROR, Unknown_register register_name) s)
             else write_transaction env register_name register_addr val s))"

text \<open>
  The argument of \<open>set_flow_rate\<close> is a Python number.  Its finite values (an \<open>int\<close>, a
  \<open>float\<close>, a \<open>Fraction\<close>) are rationals and Python compares them exactly; the literal
  \<open>0.002\<close> denotes the double nearest to it, \<open>float_0_002\<close>, which lies above 0.002.
  (A NaN or an infinity fails the range test.)  The product \<open>rate_ul_min * 100\<close> is exact
  for an \<open>int\<close> and rounded to a double for a \<open>float\<close>: the multiplication of the
  argument's type is the parameter \<open>mul\<close>.  \<open>int(...)\<close> truncates towards zero.
\<close>

definition float_0_002 :: rat where
  "float_0_002 = 1152921504606847 / 576460752303423488"

definition float_0_001 :: rat where
  "float_0_001 = 1152921504606847 / 1152921504606846976"

definition py_int :: "rat \<Rightarrow> int" where
  "py_int x = (if 0 \<le> x then \<lfloor>x\<rfloor> else \<lceil>x\<rceil>)"

definition set_flow_rate ::
  "(rat \<Rightarrow> rat \<Rightarrow> rat) \<Rightarrow> chan_behaviour \<Rightarrow> rat \<Rightarrow> modbus_session \<Rightarrow> bool \<times> modbus_session" where
  "set_flow_rate mul env rate_ul_min s =
     (if \<not> (float_0_002 \<le> rate_ul_min \<and> rate_ul_min \<le> 165871)
      then (False, add_log (ERROR, Flow_rate_out_of_range rate_ul_min) s)
      else
        (let register_value = py_int (mul rate_ul_min 100) in
         case write_register env ''FLOW_RATE'' register_value s of
           (success, s') \<Rightarrow>
             (success, if success then add_log (INFO, Set_flow_rate rate_ul_min) s' else s')))"

definition save_to_memory :: "int \<Rightarrow> modbus_session \<Rightarrow> bool \<times> modbus_session" where
  "save_to_memory slot s =
     (if \<not> (1 \<le> slot \<and> slot \<le> 60) then (False, add_log (ERROR, Invalid_memory_slot slot) s)
      else (True, add_log (INFO, Saving_to_memory slot) s))"

definition load_from_memory :: "int \<Rightarrow> modbus_session \<Rightarrow> bool \<times> modbus_session" where
  "load_from_memory slot s =
     (if \<not> (1 \<le> slot \<and> slot \<le> 60) then (False, add_log (ERROR, Invalid_memory_slot slot) s)
      else (True, add_log (INFO, Loading_from_memory slot) s))"

subsection \<open>Class \<open>ISPLab02Controller\<close> (command strings)\<close>

text \<open>
  \<open>str.encode('ascii')\<close> and \<open>bytes.decode('ascii')\<close> raise a \<open>UnicodeError\<close> on a code
  above 127; \<open>str.strip()\<close> removes the white space of both ends, which among the ASCII
  characters are the codes 9 to 13 and 28 to 32.
\<close>

definition encode_ascii :: "string \<Rightarrow> py_error + bytes" where
  "encode_ascii cs =
     (if list_all (\<lambda>c. (of_char c :: nat) < 128) cs then Inr (map of_char cs)
      else Inl UnicodeError)"

definition decode_ascii :: "bytes \<Rightarrow> py_error + string" where
  "decode_ascii bs =
     (if list_all (\<lambda>b. unat b < 128) bs then Inr (map (\<lambda>b. char_of (unat b)) bs)
      else Inl UnicodeError)"

definition is_space :: "char \<Rightarrow> bool" where
  "is_space c = (let n = (of_char c :: nat) in (9 \<le> n \<and> n \<le> 13) \<or> (28 \<le> n \<and> n \<le> 32))"

definition strip :: "string \<Rightarrow> string" where
  "strip cs = rev (dropWhile is_space (rev (dropWhile is_space cs)))"

definition CRLF :: string where
  "CRLF = [char_of (13 :: nat), char_of (10 :: nat)]"

definition endswith :: "string \<Rightarrow> string \<Rightarrow> bool" where
  "endswith cs suffix = (length suffix \<le> length cs \<and> drop (length cs - length suffix) cs = suffix)"

definition send_command ::
  "chan_behaviour \<Rightarrow> string \<Rightarrow> pump_session \<Rightarrow> string option \<times> pump_session" where
  "send_command env command0 s =
     (if \<not> is_connected s then (None, add_log (ERROR, Not_connected) s)
      else
        (let command = (if \<not> endswith command0 CRLF then command0 @ CRLF else command0) in
         case encode_ascii command of
           Inl e \<Rightarrow> (None, add_log (ERROR, Error_sending_command e) s)
         | Inr data \<Rightarrow>
             (case serial_write env data (serial_conn s) of
                (conn1, Some e) \<Rightarrow>
                  (None, add_log (ERROR, Error_sending_command e) (s\<lparr>serial_conn := conn1\<rparr>))
              | (conn1, None) \<Rightarrow>
                  (case serial_readline env conn1 of
                     (conn2, Inl e) \<Rightarrow>
                       (None, add_logs [(DEBUG, Sent (strip command)),
                                        (ERROR, Error_sending_command e)]
                                (s\<lparr>serial_conn := conn2\<rparr>))
                   | (conn2, Inr raw) \<Rightarrow>
                       (case decode_ascii raw of
                          Inl e \<Rightarrow>
                            (None, add_logs [(DEBUG, Sent (strip command)),
                                             (ERROR, Error_sending_command e)]
                                     (s\<lparr>serial_conn := conn2\<rparr>))
                        | Inr text \<Rightarrow>
                            (Some (strip text),
                             add_logs [(DEBUG, Sent (strip command)), (DEBUG, Received (strip text))]
                               (s\<lparr>serial_conn := conn2\<rparr>)))))))"

text \<open>
  The parameter \<open>fmt3\<close> is the formatting \<open>f"{rate_ul_min:.3f}"\<close> of the argument.
\<close>

definition cmd_set_flow_rate ::
  "(rat \<Rightarrow> string) \<Rightarrow> chan_behaviour \<Rightarrow> rat \<Rightarrow> pump_session \<Rightarrow> bool \<times> pump_session" where
  "cmd_set_flow_rate fmt3 env rate_ul_min s =
     (if \<not> (float_0_001 \<le> rate_ul_min \<and> rate_ul_min \<le> 127000)
      then (False, add_log (ERROR, Flow_rate_out_of_range rate_ul_min) s)
      else
        (let command = ''RATE:'' @ fmt3 rate_ul_min in
         case send_command env command s of
           (response, s') \<Rightarrow>
             (if response \<noteq> None \<and> response \<noteq> Some []
              then (True, add_log (INFO, Set_flow_rate rate_ul_min) s')
              else (False, s'))))"

section \<open>Notions used in the statements\<close>

text \<open>A value that fits the \<open>H\<close> field of \<open>struct\<close>.\<close>

definition u16 :: "int \<Rightarrow> bool" where
  "u16 c = (0 \<le> c \<and> c \<le> 65535)"

text \<open>One pass of the inner loop of \<open>calculate_crc16\<close>.\<close>

definition crc_step :: "int \<Rightarrow> int" where
  "crc_step crc = (if crc AND 0x0001 \<noteq> 0 then drop_bit 1 crc XOR 0xA001 else drop_bit 1 crc)"

text \<open>
  The bytes of a 16-bit value, and a frame completed with the CRC of its bytes, low
  byte first.
\<close>

definition lo_byte :: "int \<Rightarrow> byte" where
  "lo_byte v = word_of_int (v mod 256)"

definition hi_byte :: "int \<Rightarrow> byte" where
  "hi_byte v = word_of_int (v div 256)"

definition append_crc :: "bytes \<Rightarrow> bytes" where
  "append_crc data = data @ [lo_byte (calculate_crc16 data), hi_byte (calculate_crc16 data)]"

text \<open>
  The CRC test of \<open>parse_response\<close>: the last two bytes, read little-endian, are the
  CRC of the bytes before them.  A well-formed response has at least five bytes and
  passes the test.
\<close>

definition crc_valid :: "bytes \<Rightarrow> bool" where
  "crc_valid response =
     (struct_unpack_H False (py_slice (Some (-2)) None response) =
        Inr (calculate_crc16 (py_slice None (Some (-2)) response)))"

definition well_formed :: "bytes \<Rightarrow> bool" where
  "well_formed response = (5 \<le> length response \<and> crc_valid response)"

text \<open>
  The decoding of a response as the specification words it: no value below five bytes
  or on a CRC mismatch; the big-endian value at offset 3 for function code 3 and at
  least seven bytes; at offset 4 for function code 6 and at least eight bytes; no
  value otherwise.
\<close>

definition parse_response_spec :: "bytes \<Rightarrow> int option" where
  "parse_response_spec r =
     (let n = length r in
      if n < 5 then None
      else if uint (r ! (n - 2)) + 256 * uint (r ! (n - 1)) \<noteq> calculate_crc16 (take (n - 2) r)
        then None
      else if r ! 1 = 3 \<and> 7 \<le> n then Some (256 * uint (r ! 3) + uint (r ! 4))
      else if r ! 1 = 6 \<and> 8 \<le> n then Some (256 * uint (r ! 4) + uint (r ! 5))
      else None)"

text \<open>
  A channel object that exists and is open.  In every state the methods produce from a
  fresh controller, \<open>is_connected\<close> holds exactly when the session has such a channel:
  the state is \<open>consistent\<close>.
\<close>

definition conn_open :: "channel option \<Rightarrow> bool" where
  "conn_open conn = (case conn of None \<Rightarrow> False | Some ch \<Rightarrow> is_open ch)"

definition consistent :: "'a pump_session_scheme \<Rightarrow> bool" where
  "consistent s = (is_connected s = conn_open (serial_conn s))"

text \<open>
  A Modbus session on the default port with slave id 1, after a successful \<open>connect\<close>.
\<close>

definition connected_session :: modbus_session where
  "connected_session = snd (connect Opens (init_modbus_controller ''/dev/tty.usbserial'' 9600 1))"

section \<open>Properties of the frame codec\<close>

subsection \<open>Auxiliary facts\<close>

lemma and_one_odd: "(c AND (1::int) \<noteq> 0) = odd c"
  by (simp add: and_one_eq odd_iff_mod_2_eq_one)

lemma xor_cancel_r: "(a::int) XOR k = b XOR k \<Longrightarrow> a = b"
proof -
  assume "a XOR k = b XOR k"
  then have "(a XOR k) XOR k = (b XOR k) XOR k" by simp
  then show ?thesis by (simp add: xor.assoc)
qed

lemma crc_step_u16: "u16 c \<Longrightarrow> u16 (crc_step c)"
proof -
  assume a: "u16 c"
  then have d: "0 \<le> drop_bit 1 c" "drop_bit 1 c < 2 ^ 16"
    by (auto simp: u16_def drop_bit_eq_div)
  have "drop_bit 1 c XOR 0xA001 < 2 ^ 16"
    using d by (intro XOR_upper) auto
  moreover have "0 \<le> drop_bit 1 c XOR 0xA001"
    using d by simp
  ultimately show ?thesis using d by (auto simp: crc_step_def u16_def)
qed

lemma bit15_half: "u16 c \<Longrightarrow> \<not> bit (drop_bit 1 c) 15"
  by (auto simp: u16_def bit_iff_odd drop_bit_eq_div)

lemma bit15_poly: "bit (0xA001 :: int) 15"
  by (simp add: bit_iff_odd)

lemma crc_step_inj: 
  assumes "u16 c" "u16 d" "crc_step c = crc_step d"
  shows "c = d"
proof -
  have b: "bit (crc_step x) 15 = odd x" if "u16 x" for x
    using bit15_half[OF that] bit15_poly
    by (auto simp: crc_step_def and_one_odd bit_xor_iff)
  have par: "odd c = odd d" using b[OF assms(1)] b[OF assms(2)] assms(3) by simp
  have "drop_bit 1 c = drop_bit 1 d"
    using assms(3) par by (auto simp: crc_step_def and_one_odd dest: xor_cancel_r)
  then have "c div 2 = d div 2" by (simp add: drop_bit_eq_div)
  with par show ?thesis
    by (metis odd_two_times_div_two_succ even_two_times_div_two)
qed

lemma crc_bits_Suc: "crc_bits (Suc n) c = crc_bits n (crc_step c)"
  by (simp add: crc_step_def)

lemma crc_bits_u16: "u16 c \<Longrightarrow> u16 (crc_bits n c)"
  by (induction n arbitrary: c) (simp_all only: crc_bits.simps(1) crc_bits_Suc crc_step_u16)

lemma crc_bits_inj: "u16 c \<Longrightarrow> u16 d \<Longrightarrow> crc_bits n c = crc_bits n d \<Longrightarrow> c = d"
proof (induction n arbitrary: c d)
  case 0
  then show ?case by simp
next
  case (Suc n)
  from Suc.prems have "crc_bits n (crc_step c) = crc_bits n (crc_step d)"
    by (simp only: crc_bits_Suc)
  then have "crc_step c = crc_step d"
    using Suc.IH[of "crc_step c" "crc_step d"] Suc.prems by (simp add: crc_step_u16)
  then show ?case using Suc.prems crc_step_inj by blast
qed

lemma xor_byte_u16: "u16 c \<Longrightarrow> u16 (c XOR uint (b :: byte))"
proof -
  assume a: "u16 c"
  have "uint b < 2 ^ 8" using uint_bounded[of b] by simp
  then have "uint b < 2 ^ 16" by simp
  moreover have "c < 2 ^ 16" using a by (simp add: u16_def)
  ultimately have "c XOR uint b < 2 ^ 16" using a by (intro XOR_upper) (auto simp: u16_def)
  moreover have "0 \<le> c XOR uint b" using a by (simp add: u16_def)
  ultimately show ?thesis by (simp add: u16_def)
qed

lemma crc_bytes_u16: "u16 c \<Longrightarrow> u16 (crc_bytes c data)"
  by (induction data arbitrary: c) (simp_all add: xor_byte_u16 crc_bits_u16 del: crc_bits.simps)

lemma calculate_crc16_u16: "u16 (calculate_crc16 data)"
  unfolding calculate_crc16_def by (rule crc_bytes_u16) (simp add: u16_def)

lemma crc_bytes_inj: "u16 c \<Longrightarrow> u16 d \<Longrightarrow> crc_bytes c data = crc_bytes d data \<Longrightarrow> c = d"
proof (induction data arbitrary: c d)
  case Nil
  then show ?case by simp
next
  case (Cons b data)
  have "crc_bits 8 (c XOR uint b) = crc_bits 8 (d XOR uint b)"
    using Cons.IH[of "crc_bits 8 (c XOR uint b)" "crc_bits 8 (d XOR uint b)"] Cons.prems
    by (simp add: xor_byte_u16 crc_bits_u16 del: crc_bits.simps)
  then have "c XOR uint b = d XOR uint b"
    using crc_bits_inj Cons.prems xor_byte_u16 by blast
  then show ?case by (rule xor_cancel_r)
qed

lemma crc_bytes_append: "crc_bytes c (xs @ ys) = crc_bytes (crc_bytes c xs) ys"
  by (induction xs arbitrary: c) (simp_all del: crc_bits.simps)

lemma crc_bytes_one_byte:
  assumes "u16 c" "b \<noteq> b'"
  shows "crc_bytes c (xs @ b # ys) \<noteq> crc_bytes c (xs @ b' # ys)"
proof
  assume eq: "crc_bytes c (xs @ b # ys) = crc_bytes c (xs @ b' # ys)"
  let ?c = "crc_bytes c xs"
  have u: "u16 ?c" using assms(1) by (rule crc_bytes_u16)
  from eq have "crc_bytes (crc_bits 8 (?c XOR uint b)) ys = crc_bytes (crc_bits 8 (?c XOR uint b')) ys"
    by (simp add: crc_bytes_append del: crc_bits.simps)
  then have "crc_bits 8 (?c XOR uint b) = crc_bits 8 (?c XOR uint b')"
    using crc_bytes_inj u xor_byte_u16 crc_bits_u16 by blast
  then have "?c XOR uint b = ?c XOR uint b'"
    using crc_bits_inj u xor_byte_u16 by blast
  then have "uint b XOR ?c = uint b' XOR ?c" by (simp add: xor.commute)
  then have "uint b = uint b'" by (rule xor_cancel_r)
  then show False using assms(2) by (simp add: word_uint_eq_iff)
qed

lemma crc_update_one_byte:
  assumes "i < length data" "b \<noteq> data ! i"
  shows "calculate_crc16 (data[i := b]) \<noteq> calculate_crc16 data"
proof -
  have d: "data = take i data @ data ! i # drop (Suc i) data"
    using assms(1) by (simp add: id_take_nth_drop)
  have e: "data[i := b] = take i data @ b # drop (Suc i) data"
    using assms(1) by (simp add: upd_conv_take_nth_drop)
  have "crc_bytes 0xFFFF (take i data @ b # drop (Suc i) data)
        \<noteq> crc_bytes 0xFFFF (take i data @ data ! i # drop (Suc i) data)"
    by (rule crc_bytes_one_byte) (simp_all add: u16_def assms(2))
  then show ?thesis unfolding calculate_crc16_def using d e by metis
qed

lemma take2_drop: "k + 2 \<le> length r \<Longrightarrow> take 2 (drop k r) = [r ! k, r ! Suc k]"
proof -
  assume a: "k + 2 \<le> length r"
  have "drop k r = r ! k # drop (Suc k) r"
    using a by (intro Cons_nth_drop_Suc[symmetric]) simp
  moreover have "drop (Suc k) r = r ! Suc k # drop (Suc (Suc k)) r"
    using a by (intro Cons_nth_drop_Suc[symmetric]) simp
  ultimately show ?thesis by simp
qed

lemma slice_tail2: "2 \<le> length r \<Longrightarrow>
    py_slice (Some (-2)) None r = [r ! (length r - 2), r ! (length r - 1)]"
proof -
  assume a: "2 \<le> length r"
  have "py_slice (Some (-2)) None r = take 2 (drop (length r - 2) r)"
    using a by (simp add: py_slice_def norm_bound_def nat_diff_distrib' max_def)
  also have "\<dots> = [r ! (length r - 2), r ! Suc (length r - 2)]"
    using a by (intro take2_drop) simp
  also have "Suc (length r - 2) = length r - 1" using a by arith
  finally show ?thesis .
qed

lemma slice_init2: "2 \<le> length r \<Longrightarrow> py_slice None (Some (-2)) r = take (length r - 2) r"
  by (simp add: py_slice_def norm_bound_def nat_diff_distrib' max_def)

lemma slice_3_5: "5 \<le> length r \<Longrightarrow> py_slice (Some 3) (Some 5) r = [r ! 3, r ! 4]"
  using take2_drop[of 3 r] by (simp add: py_slice_def norm_bound_def eval_nat_numeral)

lemma slice_4_6: "6 \<le> length r \<Longrightarrow> py_slice (Some 4) (Some 6) r = [r ! 4, r ! 5]"
  using take2_drop[of 4 r] by (simp add: py_slice_def norm_bound_def eval_nat_numeral)

lemma index_1: "2 \<le> length r \<Longrightarrow> py_index r 1 = Inr (r ! 1)"
  by (simp add: py_index_def)

lemma crc_valid_iff: "2 \<le> length r \<Longrightarrow>
   crc_valid r = (uint (r ! (length r - 2)) + 256 * uint (r ! (length r - 1))
                     = calculate_crc16 (take (length r - 2) r))"
  by (simp add: crc_valid_def slice_tail2 slice_init2)

lemma extract_value_eq: "5 \<le> length r \<Longrightarrow> extract_value r =
   (Inr (if r ! 1 = 3 \<and> 7 \<le> length r then Some (256 * uint (r ! 3) + uint (r ! 4))
         else if r ! 1 = 6 \<and> 8 \<le> length r then Some (256 * uint (r ! 4) + uint (r ! 5))
         else None), [])"
  by (simp add: extract_value_def index_1 decode_at_def slice_3_5 slice_4_6)

lemma parse_response_eq: "parse_response r =
   (if length r < 5 then (Inr None, [])
    else if \<not> crc_valid r then (Inr None, [(ERROR, CRC_check_failed)])
    else extract_value r)"
  by (simp add: parse_response_def crc_valid_iff slice_tail2 slice_init2)

lemma parse_response_fst: "fst (parse_response r) = Inr (parse_response_spec r)"
  by (simp add: parse_response_eq parse_response_spec_def crc_valid_iff extract_value_eq Let_def)

lemma parse_response_snd: "snd (parse_response r) =
   (if 5 \<le> length r \<and> \<not> crc_valid r then [(ERROR, CRC_check_failed)] else [])"
  by (simp add: parse_response_eq extract_value_eq)

lemma crc_bounds: "0 \<le> calculate_crc16 data" "calculate_crc16 data \<le> 65535"
  using calculate_crc16_u16[of data] by (simp_all add: u16_def)

lemma pack_crc: "struct_pack False [(H, Some (calculate_crc16 data))] =
    Inr [lo_byte (calculate_crc16 data), hi_byte (calculate_crc16 data)]"
  using calculate_crc16_u16[of data] by (simp add: u16_def lo_byte_def hi_byte_def)

lemma build_request_3:
  assumes "0 \<le> slave" "slave \<le> 255" "u16 register_addr" "u16 count"
  shows "build_request slave 3 register_addr val count =
     Inr (append_crc [word_of_int slave, 3, hi_byte register_addr, lo_byte register_addr,
                      hi_byte count, lo_byte count])"
  using assms by (simp add: build_request_def crc_bounds u16_def append_crc_def hi_byte_def lo_byte_def)

lemma build_request_6:
  assumes "0 \<le> slave" "slave \<le> 255" "u16 register_addr" "u16 v"
  shows "build_request slave 6 register_addr (Some v) count =
     Inr (append_crc [word_of_int slave, 6, hi_byte register_addr, lo_byte register_addr,
                      hi_byte v, lo_byte v])"
  using assms by (simp add: build_request_def crc_bounds u16_def append_crc_def hi_byte_def lo_byte_def)

lemma build_request_16:
  assumes "0 \<le> slave" "slave \<le> 255" "u16 register_addr" "u16 v"
  shows "build_request slave 16 register_addr (Some v) count =
     Inr (append_crc [word_of_int slave, 16, hi_byte register_addr, lo_byte register_addr,
                      0, 1, 2, hi_byte v, lo_byte v])"
  using assms by (simp add: build_request_def crc_bounds u16_def append_crc_def hi_byte_def lo_byte_def)

lemma build_request_other:
  "function_code \<noteq> 3 \<Longrightarrow> function_code \<noteq> 6 \<Longrightarrow> function_code \<noteq> 16 \<Longrightarrow>
   build_request slave function_code register_addr val count = Inl (ValueError function_code)"
  by (simp add: build_request_def)

lemma uint_lo_byte: "uint (lo_byte v) = v mod 256"
  by (simp add: lo_byte_def uint_word_of_int take_bit_eq_mod)

lemma uint_hi_byte: "u16 v \<Longrightarrow> uint (hi_byte v) = v div 256"
proof -
  assume "u16 v"
  then have "0 \<le> v div 256" "v div 256 < 256" unfolding u16_def by presburger+
  then show ?thesis by (simp add: hi_byte_def uint_word_of_int take_bit_eq_mod)
qed

lemma unpack_lo_hi: "u16 v \<Longrightarrow> uint (lo_byte v) + 256 * uint (hi_byte v) = v"
  by (simp add: uint_lo_byte uint_hi_byte)

lemma unpack_hi_lo: "u16 v \<Longrightarrow> 256 * uint (hi_byte v) + uint (lo_byte v) = v"
  by (simp add: uint_lo_byte uint_hi_byte)

lemma crc_valid_append_crc: "crc_valid (append_crc data)"
  by (simp add: crc_valid_iff append_crc_def nth_append unpack_lo_hi calculate_crc16_u16)

lemma parse_echo_6:
  assumes "u16 v"
  shows "parse_response (append_crc [s, 6, ah, al, hi_byte v, lo_byte v]) = (Inr (Some v), [])"
proof -
  let ?f = "append_crc [s, 6, ah, al, hi_byte v, lo_byte v]"
  have l: "length ?f = 8" by (simp add: append_crc_def)
  have n: "?f ! 1 = 6" "?f ! 4 = hi_byte v" "?f ! 5 = lo_byte v" by (simp_all add: append_crc_def)
  show ?thesis
    using crc_valid_append_crc[of "[s, 6, ah, al, hi_byte v, lo_byte v]"] l n assms
    by (simp add: parse_response_eq extract_value_eq unpack_hi_lo)
qed

lemma parse_response_range:
  "\<exists>v. fst (parse_response r) = Inr v \<and> (case v of None \<Rightarrow> True | Some x \<Rightarrow> 0 \<le> x \<and> x \<le> 65535)"
proof -
  have b: "0 \<le> 256 * uint (a::byte) + uint (c::byte) \<and> 256 * uint a + uint c \<le> 65535" for a c
    using uint_bounded[of a] uint_bounded[of c] by simp
  show ?thesis
    by (simp add: parse_response_fst parse_response_spec_def Let_def b)
qed

lemma parse_response_short: "length r < 7 \<Longrightarrow> fst (parse_response r) = Inr None"
  by (simp add: parse_response_fst parse_response_spec_def Let_def)

lemma flip_bit_neq: "j < 8 \<Longrightarrow> flip_bit j (b :: byte) \<noteq> b"
proof
  assume j: "j < 8" and e: "flip_bit j b = b"
  have "bit (flip_bit j b) j = (\<not> bit b j)" using j by (simp add: bit_flip_bit_iff)
  with e show False by simp
qed

lemma corrupt_not_valid:
  assumes "5 \<le> length r" "crc_valid r" "i < length r" "b \<noteq> r ! i"
  shows "\<not> crc_valid (r[i := b])"
proof -
  let ?n = "length r"
  have v: "uint (r ! (?n - 2)) + 256 * uint (r ! (?n - 1)) = calculate_crc16 (take (?n - 2) r)"
    using assms(1,2) by (simp add: crc_valid_iff)
  consider (data) "i < ?n - 2" | (lo) "i = ?n - 2" | (hi) "i = ?n - 1"
    using assms(3) by linarith
  then show ?thesis
  proof cases
    case data
    have "calculate_crc16 ((take (?n - 2) r)[i := b]) \<noteq> calculate_crc16 (take (?n - 2) r)"
      using data assms(4) by (intro crc_update_one_byte) simp_all
    moreover have "take (?n - 2) (r[i := b]) = (take (?n - 2) r)[i := b]"
      by (simp add: take_update_swap)
    ultimately show ?thesis using v data assms(1) by (simp add: crc_valid_iff)
  next
    case lo
    have "uint b \<noteq> uint (r ! i)" using assms(4) by (simp add: word_uint_eq_iff)
    then show ?thesis using v lo assms(1) by (simp add: crc_valid_iff)
  next
    case hi
    have "uint b \<noteq> uint (r ! i)" using assms(4) by (simp add: word_uint_eq_iff)
    then show ?thesis using v hi assms(1) by (simp add: crc_valid_iff)
  qed
qed

lemma corrupt_parse:
  assumes "well_formed r" "i < length r" "b \<noteq> r ! i"
  shows "parse_response (r[i := b]) = (Inr None, [(ERROR, CRC_check_failed)])"
  using corrupt_not_valid[of r i b] assms by (simp add: parse_response_eq well_formed_def)

lemma build_request_status: "build_request 1 3 0x0050 None 1 = Inr [0x01, 0x03, 0x00, 0x50, 0x00, 0x01, 0x84, 0x1B]"
  by code_simp

lemma build_request_start: "build_request 1 6 0x0040 (Some 1) 1 = Inr [0x01, 0x06, 0x00, 0x40, 0x00, 0x01, 0x49, 0xDE]"
  by code_simp

lemma valid5: "crc_valid [1, 3, 0, 32, 240]"
  by code_simp

lemma wf8: "well_formed [1, 6, 0, 64, 0, 1, 73, 222]"
  by code_simp

subsection \<open>Claims on the codec\<close>

text \<open>
  Claim C1. For a slave id that fits one byte and a register address, value and count that fit
  16 bits, \<open>build_request\<close> returns the frame of function code 3, 6 or 16 in the layout of
  the protocol, completed with the CRC of the preceding bytes, low byte first; any other
  function code raises \<open>ValueError\<close>.  The two sample frames of the specification are
  as given there.
\<close>

theorem build_request_layout:
  "(0 \<le> slave \<and> slave \<le> 255 \<and> 0 \<le> register_addr \<and> register_addr \<le> 65535 \<and>
    0 \<le> v \<and> v \<le> 65535 \<and> 0 \<le> count \<and> count \<le> 65535 \<longrightarrow>
      build_request slave 3 register_addr val count =
        Inr (append_crc [word_of_int slave, 0x03, hi_byte register_addr, lo_byte register_addr,
                         hi_byte count, lo_byte count]) \<and>
      build_request slave 6 register_addr (Some v) count =
        Inr (append_crc [word_of_int slave, 0x06, hi_byte register_addr, lo_byte register_addr,
                         hi_byte v, lo_byte v]) \<and>
      build_request slave 16 register_addr (Some v) count =
        Inr (append_crc [word_of_int slave, 0x10, hi_byte register_addr, lo_byte register_addr,
                         0x00, 0x01, 0x02, hi_byte v, lo_byte v])) \<and>
   (function_code \<noteq> 3 \<and> function_code \<noteq> 6 \<and> function_code \<noteq> 16 \<longrightarrow>
      build_request slave function_code register_addr val count = Inl (ValueError function_code)) \<and>
   build_request 1 3 0x0050 None 1 = Inr [0x01, 0x03, 0x00, 0x50, 0x00, 0x01, 0x84, 0x1B] \<and>
   build_request 1 6 0x0040 (Some 1) 1 = Inr [0x01, 0x06, 0x00, 0x40, 0x00, 0x01, 0x49, 0xDE]"
proof (intro conjI impI)
  assume a: "0 \<le> slave \<and> slave \<le> 255 \<and> 0 \<le> register_addr \<and> register_addr \<le> 65535 \<and>
    0 \<le> v \<and> v \<le> 65535 \<and> 0 \<le> count \<and> count \<le> 65535"
  then have u: "u16 register_addr" "u16 v" "u16 count" by (simp_all add: u16_def)
  show "build_request slave 3 register_addr val count =
        Inr (append_crc [word_of_int slave, 0x03, hi_byte register_addr, lo_byte register_addr,
                         hi_byte count, lo_byte count])"
    using a u by (intro build_request_3) simp_all
  show "build_request slave 6 register_addr (Some v) count =
        Inr (append_crc [word_of_int slave, 0x06, hi_byte register_addr, lo_byte register_addr,
                         hi_byte v, lo_byte v])"
    using a u by (intro build_request_6) simp_all
  show "build_request slave 16 register_addr (Some v) count =
        Inr (append_crc [word_of_int slave, 0x10, hi_byte register_addr, lo_byte register_addr,
                         0x00, 0x01, 0x02, hi_byte v, lo_byte v])"
    using a u by (intro build_request_16) simp_all
next
  assume "function_code \<noteq> 3 \<and> function_code \<noteq> 6 \<and> function_code \<noteq> 16"
  then show "build_request slave function_code register_addr val count = Inl (ValueError function_code)"
    by (simp add: build_request_other)
next
  show "build_request 1 3 0x0050 None 1 = Inr [0x01, 0x03, 0x00, 0x50, 0x00, 0x01, 0x84, 0x1B]"
    by (rule build_request_status)
  show "build_request 1 6 0x0040 (Some 1) 1 = Inr [0x01, 0x06, 0x00, 0x40, 0x00, 0x01, 0x49, 0xDE]"
    by (rule build_request_start)
qed

theorem build_request_layout_witness:
  "build_request 1 3 0x10 None 7 = Inr (append_crc [1, 3, 0, 0x10, 0, 7]) \<and>
   build_request 1 6 0x10 (Some 10000) 7 = Inr (append_crc [1, 6, 0, 0x10, 0x27, 0x10]) \<and>
   build_request 1 16 0x10 (Some 10000) 7 = Inr (append_crc [1, 16, 0, 0x10, 0, 1, 2, 0x27, 0x10]) \<and>
   build_request 1 5 0x10 None 7 = Inl (ValueError 5)"
  using build_request_layout [of 1 "0x10" 10000 7 None 5]
  by (simp add: hi_byte_def lo_byte_def)

text \<open>
  Claim C2. \<open>parse_response\<close> returns what the specification describes, case by case, and never
  raises; replacing any one byte of a well-formed response by a different byte makes it
  return no value.
\<close>

theorem parse_response_cases:
  "fst (parse_response r) = Inr (parse_response_spec r) \<and>
   (well_formed r \<and> i < length r \<and> b \<noteq> r ! i \<longrightarrow>
      fst (parse_response (r[i := b])) = Inr None)"
  using parse_response_fst [of r] corrupt_parse [of r i b] by simp

theorem parse_response_cases_witness:
  "well_formed [1, 6, 0, 64, 0, 1, 73, 222] \<and>
   fst (parse_response [1, 6, 0, 64, 0, 1, 73, 222]) = Inr (Some 1) \<and>
   fst (parse_response ([1, 6, 0, 64, 0, 1, 73, 222][5 := 2])) = Inr None"
proof -
  have "parse_response_spec [1, 6, 0, 64, 0, 1, 73, 222] = Some 1" by code_simp
  then show ?thesis
    using parse_response_cases [of "[1, 6, 0, 64, 0, 1, 73, 222]" 5 2] wf8 by simp
qed

text \<open>
  Claim C3. The CRC of any byte sequence fits 16 bits, and the sequence followed by its packed CRC
  passes the CRC test of the parser; flipping one bit of one byte of the sequence
  changes the CRC.
\<close>

theorem crc16_detects_bit_flip:
  "0 \<le> calculate_crc16 seq \<and> calculate_crc16 seq \<le> 65535 \<and>
   (\<exists>c. struct_pack False [(H, Some (calculate_crc16 seq))] = Inr c \<and> crc_valid (seq @ c)) \<and>
   (i < length seq \<and> j < 8 \<longrightarrow>
      calculate_crc16 (seq[i := flip_bit j (seq ! i)]) \<noteq> calculate_crc16 seq)"
proof (intro conjI impI)
  show "0 \<le> calculate_crc16 seq" "calculate_crc16 seq \<le> 65535"
    by (rule crc_bounds)+
  show "\<exists>c. struct_pack False [(H, Some (calculate_crc16 seq))] = Inr c \<and> crc_valid (seq @ c)"
    using pack_crc [of seq] crc_valid_append_crc [of seq] by (simp add: append_crc_def)
next
  assume "i < length seq \<and> j < 8"
  then show "calculate_crc16 (seq[i := flip_bit j (seq ! i)]) \<noteq> calculate_crc16 seq"
    by (intro crc_update_one_byte) (simp_all add: flip_bit_neq)
qed

theorem crc16_detects_bit_flip_witness:
  "calculate_crc16 ([1, 3, 0, 0x50, 0, 1][3 := flip_bit 0 ([1, 3, 0, 0x50, 0, 1] ! 3)])
     \<noteq> calculate_crc16 [1, 3, 0, 0x50, 0, 1]"
  using crc16_detects_bit_flip [of "[1, 3, 0, 0x50, 0, 1]" 3 0] by simp

text \<open>
  Claim C6. Parsing the function-code-6 frame built for a value returns that value.
\<close>

theorem parse_build_roundtrip:
  "0 \<le> slave \<and> slave \<le> 255 \<and> 0 \<le> register_addr \<and> register_addr \<le> 65535 \<and>
   0 \<le> v \<and> v \<le> 65535 \<Longrightarrow>
   \<exists>frame. build_request slave 6 register_addr (Some v) count = Inr frame \<and>
           parse_response frame = (Inr (Some v), [])"
  using build_request_6 [of slave register_addr v count]
        parse_echo_6 [of v "word_of_int slave" "hi_byte register_addr" "lo_byte register_addr"]
  by (simp add: u16_def)

theorem parse_build_roundtrip_witness:
  "\<exists>frame. build_request 1 6 0x0040 (Some 1) 1 = Inr frame \<and>
           parse_response frame = (Inr (Some 1), [])"
  using parse_build_roundtrip [of 1 "0x0040" 1 1] by simp

text \<open>
  Claim C10. \<open>parse_response\<close> returns on every byte sequence, with no value or a value that fits
  16 bits, and never raises; a sequence shorter than seven bytes yields no value even
  when it passes the length and CRC tests.
\<close>

theorem parse_response_total:
  "(\<exists>v. fst (parse_response r) = Inr v \<and>
        (case v of None \<Rightarrow> True | Some x \<Rightarrow> 0 \<le> x \<and> x \<le> 65535)) \<and>
   (length r < 7 \<longrightarrow> fst (parse_response r) = Inr None)"
  using parse_response_range [of r] parse_response_short [of r] by blast

theorem parse_response_total_witness:
  "crc_valid [1, 3, 0, 32, 240] \<and> fst (parse_response [1, 3, 0, 32, 240]) = Inr None"
  using parse_response_total [of "[1, 3, 0, 32, 240]"] valid5 by simp

section \<open>Properties of the transaction engine\<close>

subsection \<open>Auxiliary facts\<close>

lemma serial_conn_add_log: "serial_conn (add_log e s) = serial_conn s"
  by (simp add: add_log_def)

lemma is_connected_add_log: "is_connected (add_log e s) = is_connected s"
  by (simp add: add_log_def)

lemma serial_conn_add_logs: "serial_conn (add_logs es s) = serial_conn s"
  by (simp add: add_logs_def)

lemma is_connected_add_logs: "is_connected (add_logs es s) = is_connected s"
  by (simp add: add_logs_def)

lemma consistent_add_log: "consistent (add_log e s) = consistent s"
  by (simp add: consistent_def serial_conn_add_log is_connected_add_log)

lemma consistent_add_logs: "consistent (add_logs es s) = consistent s"
  by (simp add: consistent_def serial_conn_add_logs is_connected_add_logs)

lemma consistent_init: "consistent (init_controller p b)" "consistent (init_modbus_controller p b sl)"
  by (simp_all add: consistent_def conn_open_def init_controller_def init_modbus_controller_def)

lemma consistent_connect: "consistent s \<Longrightarrow> consistent (snd (connect outcome s))"
  by (cases outcome) (simp_all add: connect_def consistent_add_log, simp add: consistent_def conn_open_def)

lemma disconnect_cases:
  "disconnect s = (if is_connected s \<and> serial_conn s \<noteq> None
      then add_log (INFO, Disconnected)
             (s\<lparr>serial_conn := map_option (\<lambda>ch. ch\<lparr>is_open := False\<rparr>) (serial_conn s),
                is_connected := False\<rparr>)
      else s)"
  by (cases "serial_conn s") (simp_all add: disconnect_def)




lemma conn_open_serial_write: "conn_open (fst (serial_write env data conn)) = conn_open conn"
  by (cases conn) (simp_all add: serial_write_def conn_open_def)

lemma conn_open_serial_read: "conn_open (fst (serial_read env n conn)) = conn_open conn"
  by (cases conn) (simp_all add: serial_read_def conn_open_def)

lemma conn_open_serial_readline: "conn_open (fst (serial_readline env conn)) = conn_open conn"
  by (cases conn) (simp_all add: serial_readline_def conn_open_def)

lemma REGISTERS_known:
  "map_of REGISTERS name = Some addr \<Longrightarrow> 0 < addr \<and> addr \<le> 65535"
  by (simp add: REGISTERS_def split: if_splits)

lemma REGISTERS_unknown:
  "name \<notin> {''MODE'', ''FLOW_RATE'', ''VOLUME'', ''SYRINGE_DIA'', ''START_STOP'', ''STATUS'',
            ''DIRECTION'', ''LINEAR_SPEED''} \<Longrightarrow> map_of REGISTERS name = None"
  by (simp add: REGISTERS_def)

lemma read_register_not_connected:
  "\<not> is_connected s \<Longrightarrow> read_register env name s = (None, add_log (ERROR, Not_connected) s)"
  by (simp add: read_register_def)

lemma write_register_not_connected:
  "\<not> is_connected s \<Longrightarrow> write_register env name v s = (False, add_log (ERROR, Not_connected) s)"
  by (simp add: write_register_def)

lemma read_register_unknown:
  "is_connected s \<Longrightarrow> map_of REGISTERS name = None \<Longrightarrow>
   read_register env name s = (None, add_log (ERROR, Unknown_register name) s)"
  by (simp add: read_register_def)

lemma write_register_unknown:
  "is_connected s \<Longrightarrow> map_of REGISTERS name = None \<Longrightarrow>
   write_register env name v s = (False, add_log (ERROR, Unknown_register name) s)"
  by (simp add: write_register_def)

lemma read_register_known:
  "is_connected s \<Longrightarrow> map_of REGISTERS name = Some addr \<Longrightarrow>
   read_register env name s = read_transaction env name addr s"
  using REGISTERS_known [of name addr] by (simp add: read_register_def)

lemma write_register_known:
  "is_connected s \<Longrightarrow> map_of REGISTERS name = Some addr \<Longrightarrow>
   write_register env name v s = write_transaction env name addr v s"
  using REGISTERS_known [of name addr] by (simp add: write_register_def)

lemma serial_write_open:
  "is_open ch \<Longrightarrow> serial_write env data (Some ch) =
     (Some (ch\<lparr>trace := trace ch @ [Write data]\<rparr>),
      if env = Write_raises then Some SerialException else None)"
  by (simp add: serial_write_def)

lemma serial_read_open:
  "is_open ch \<Longrightarrow> serial_read env n (Some ch) =
     (Some (ch\<lparr>trace := trace ch @ [Read n]\<rparr>),
      case env of Replies bs \<Rightarrow> Inr (take n bs) | _ \<Rightarrow> Inl SerialException)"
  by (simp add: serial_read_def)

lemma write_transaction_trace:
  assumes "build_request (slave_id s) 6 addr (Some v) 1 = Inr frame"
    and "serial_conn s = Some ch" and "is_open ch"
  shows "map_option trace (serial_conn (snd (write_transaction env name addr v s))) =
         Some (trace ch @ Write frame # (if env = Write_raises then [] else [Read 256]))"
  using assms
  by (cases env)
     (simp_all add: write_transaction_def serial_write_open serial_read_open
        serial_conn_add_log serial_conn_add_logs split: prod.splits sum.splits)

lemma read_transaction_trace:
  assumes "build_request (slave_id s) 3 addr None 1 = Inr frame"
    and "serial_conn s = Some ch" and "is_open ch"
  shows "map_option trace (serial_conn (snd (read_transaction env name addr s))) =
         Some (trace ch @ Write frame # (if env = Write_raises then [] else [Read 256]))"
  using assms
  by (cases env)
     (simp_all add: read_transaction_def serial_write_open serial_read_open
        serial_conn_add_log serial_conn_add_logs split: prod.splits sum.splits)

lemma write_transaction_overflow:
  "build_request (slave_id s) 6 addr (Some v) 1 = Inl e \<Longrightarrow>
   write_transaction env name addr v s = (False, add_log (ERROR, Error_writing_register e) s)"
  by (simp add: write_transaction_def)

lemma serial_read_Replies:
  "serial_read (Replies bs) n conn = (conn', Inr r) \<Longrightarrow> r = take n bs"
  by (cases conn) (auto simp: serial_read_def split: if_splits)

lemma read_transaction_no_value:
  assumes "take 256 bs = [] \<or> fst (parse_response (take 256 bs)) = Inr None"
  shows "fst (read_transaction (Replies bs) name addr s) = None"
  using assms
  by (auto simp: read_transaction_def split: prod.splits sum.splits option.splits
        dest!: serial_read_Replies)

lemma write_transaction_no_value:
  assumes "take 256 bs = [] \<or> fst (parse_response (take 256 bs)) = Inr None"
  shows "fst (write_transaction (Replies bs) name addr v s) = False"
  using assms
  by (auto simp: write_transaction_def split: prod.splits sum.splits option.splits
        dest!: serial_read_Replies)

lemma set_flow_rate_low:
  "rate < 2 / 1000 \<or> 165871 < rate \<Longrightarrow>
   set_flow_rate mul env rate s = (False, add_log (ERROR, Flow_rate_out_of_range rate) s)"
  by (auto simp: set_flow_rate_def float_0_002_def)

lemma cmd_set_flow_rate_low:
  "rate < 1 / 1000 \<or> 127000 < rate \<Longrightarrow>
   cmd_set_flow_rate fmt3 env rate c = (False, add_log (ERROR, Flow_rate_out_of_range rate) c)"
  by (auto simp: cmd_set_flow_rate_def float_0_001_def)

lemma set_flow_rate_conn:
  "float_0_002 \<le> rate \<and> rate \<le> 165871 \<Longrightarrow>
   serial_conn (snd (set_flow_rate mul env rate s)) =
   serial_conn (snd (write_register env ''FLOW_RATE'' (py_int (mul rate 100)) s))"
  by (simp add: set_flow_rate_def Let_def serial_conn_add_log split: prod.splits)

lemma FLOW_RATE_addr: "map_of REGISTERS ''FLOW_RATE'' = Some 0x0010"
  by (simp add: REGISTERS_def)

lemma build_request_6_ok:
  "0 \<le> sl \<and> sl \<le> 255 \<and> 0 \<le> addr \<and> addr \<le> 65535 \<and> 0 \<le> v \<and> v \<le> 65535 \<Longrightarrow>
   \<exists>frame. build_request sl 6 addr (Some v) 1 = Inr frame"
  using build_request_6 [of sl addr v 1] by (simp add: u16_def)

lemma set_flow_rate_sent:
  assumes "float_0_002 \<le> rate \<and> rate \<le> 165871" "is_connected s" "serial_conn s = Some ch"
    "is_open ch" "0 \<le> slave_id s \<and> slave_id s \<le> 255"
    "0 \<le> py_int (mul rate 100) \<and> py_int (mul rate 100) \<le> 65535"
  shows "\<exists>frame. build_request (slave_id s) 6 0x0010 (Some (py_int (mul rate 100))) 1 = Inr frame \<and>
           map_option trace (serial_conn (snd (set_flow_rate mul env rate s))) =
             Some (trace ch @ Write frame # (if env = Write_raises then [] else [Read 256]))"
proof -
  obtain frame where f: "build_request (slave_id s) 6 0x0010 (Some (py_int (mul rate 100))) 1 = Inr frame"
    using build_request_6_ok [of "slave_id s" "0x0010" "py_int (mul rate 100)"] assms(5,6) by auto
  have "serial_conn (snd (set_flow_rate mul env rate s)) =
        serial_conn (snd (write_transaction env ''FLOW_RATE'' 0x0010 (py_int (mul rate 100)) s))"
    using assms(1,2) by (simp add: set_flow_rate_conn write_register_known [OF _ FLOW_RATE_addr])
  then show ?thesis
    using f write_transaction_trace [OF f assms(3,4), of env "''FLOW_RATE''"] by auto
qed

lemma set_flow_rate_disconnected:
  "float_0_002 \<le> rate \<and> rate \<le> 165871 \<Longrightarrow> \<not> is_connected s \<Longrightarrow>
   serial_conn (snd (set_flow_rate mul env rate s)) = serial_conn s"
  by (simp add: set_flow_rate_conn write_register_not_connected serial_conn_add_log)

lemma set_flow_rate_100:
  "fst (set_flow_rate (*) (Replies [1, 6, 0, 16, 39, 16, 146, 51]) 100 connected_session) = True \<and>
   map_option trace (serial_conn (snd (set_flow_rate (*) (Replies [1, 6, 0, 16, 39, 16, 146, 51]) 100 connected_session))) =
     Some [Write [0x01, 0x06, 0x00, 0x10, 0x27, 0x10, 0x92, 0x33], Read 256]"
  by code_simp

lemma set_flow_rate_1000:
  "float_0_002 \<le> 1000 \<and> (1000 :: rat) \<le> 165871 \<and>
   fst (set_flow_rate (*) (Replies [1, 6, 0, 16, 39, 16, 146, 51]) 1000 connected_session) = False \<and>
   map_option trace (serial_conn (snd (set_flow_rate (*) (Replies [1, 6, 0, 16, 39, 16, 146, 51]) 1000 connected_session))) = Some []"
  by code_simp

lemma set_flow_rate_100_closed:
  "float_0_002 \<le> 100 \<and> (100 :: rat) \<le> 165871 \<and>
   set_flow_rate (*) (Replies [1, 6, 0, 16, 39, 16, 146, 51]) 100 (init_modbus_controller ''/dev/tty.usbserial'' 9600 1) =
     (False, add_log (ERROR, Not_connected) (init_modbus_controller ''/dev/tty.usbserial'' 9600 1))"
  by code_simp

lemma conflated_write:
  "write_register (Replies []) ''MODE'' 1 connected_session =
   write_register (Replies [0x01, 0x86, 0x02, 0xC3, 0xA1]) ''MODE'' 1 connected_session"
  by code_simp

lemma conflated_write_valid: "well_formed [0x01, 0x86, 0x02, 0xC3, 0xA1]"
  by code_simp

lemma conflated_read:
  "fst (read_register (Replies []) ''STATUS'' connected_session) = None \<and>
   fst (read_register (Replies [0x01, 0x03, 0x02, 0x00, 0x07, 0x00, 0x00]) ''STATUS'' connected_session) = None"
  by code_simp

lemma serial_write_fst:
  "serial_write env data conn = (conn', r) \<Longrightarrow> conn_open conn' = conn_open conn"
  using conn_open_serial_write [of env data conn] by simp

lemma serial_read_fst:
  "serial_read env n conn = (conn', r) \<Longrightarrow> conn_open conn' = conn_open conn"
  using conn_open_serial_read [of env n conn] by simp

lemma consistent_read_transaction:
  "consistent s \<Longrightarrow> consistent (snd (read_transaction env name addr s))"
  by (auto simp: read_transaction_def consistent_def serial_conn_add_log serial_conn_add_logs
        is_connected_add_log is_connected_add_logs
        split: prod.splits sum.splits option.splits dest!: serial_write_fst serial_read_fst)

lemma consistent_write_transaction:
  "consistent s \<Longrightarrow> consistent (snd (write_transaction env name addr v s))"
  by (auto simp: write_transaction_def consistent_def serial_conn_add_log serial_conn_add_logs
        is_connected_add_log is_connected_add_logs
        split: prod.splits sum.splits option.splits dest!: serial_write_fst serial_read_fst)

lemma consistent_read_register:
  "consistent s \<Longrightarrow> consistent (snd (read_register env name s))"
  by (simp add: read_register_def consistent_add_log consistent_read_transaction
        split: option.splits)

lemma consistent_write_register:
  "consistent s \<Longrightarrow> consistent (snd (write_register env name v s))"
  by (simp add: write_register_def consistent_add_log consistent_write_transaction
        split: option.splits)

lemma consistent_set_flow_rate:
  "consistent s \<Longrightarrow> consistent (snd (set_flow_rate mul env rate s))"
  using consistent_write_register [of s env "''FLOW_RATE''" "py_int (mul rate 100)"]
  by (cases "write_register env ''FLOW_RATE'' (py_int (mul rate 100)) s")
     (simp add: set_flow_rate_def Let_def consistent_add_log)

lemma consistent_memory:
  "consistent s \<Longrightarrow> consistent (snd (save_to_memory slot s))"
  "consistent s \<Longrightarrow> consistent (snd (load_from_memory slot s))"
  by (simp_all add: save_to_memory_def load_from_memory_def consistent_add_log)

lemma connected_session_facts:
  "is_connected connected_session \<and> consistent connected_session \<and>
   serial_conn connected_session = Some \<lparr>is_open = True, trace = []\<rparr> \<and>
   slave_id connected_session = 1"
  by code_simp

lemma bad_crc_frame:
  "map_of REGISTERS ''STATUS'' = Some 0x0050 \<and>
   fst (parse_response (take 256 [0x01, 0x03, 0x02, 0x00, 0x07, 0x00, 0x00])) = Inr None"
  by code_simp

lemma witness_hyps:
  "float_0_002 \<le> 100 \<and> (100 :: rat) \<le> 165871 \<and> 0 \<le> py_int (100 * 100) \<and>
   py_int (100 * 100) \<le> 65535 \<and> (200000 :: rat) > 165871 \<and> (200000 :: rat) > 127000 \<and>
   \<not> is_connected (init_modbus_controller ''/dev/tty.usbserial'' 9600 1)"
  by code_simp

subsection \<open>The range check and the scaling of \<open>set_flow_rate\<close>\<close>

text \<open>
  A rate below 0.002 or above 165871 (Modbus variant), below 0.001 or above 127000
  (command variant), is refused with a logged range error and the channel is not
  touched.  An accepted rate on a connected Modbus session with an open channel and a
  slave id that fits one byte, whose scaled register value \<open>int(rate * 100)\<close> lies in
  0..65535, puts exactly one write on the channel, the function-6 frame for register
  0x0010 with that value.  The rate 100.0 writes the value 10000.
\<close>

lemma set_flow_rate_validation:
  "(x < 2 / 1000 \<or> 165871 < x \<longrightarrow>
      set_flow_rate mul env x s = (False, add_log (ERROR, Flow_rate_out_of_range x) s)) \<and>
   (y < 1 / 1000 \<or> 127000 < y \<longrightarrow>
      cmd_set_flow_rate fmt3 env y c = (False, add_log (ERROR, Flow_rate_out_of_range y) c)) \<and>
   serial_conn (add_log e s) = serial_conn s \<and> serial_conn (add_log e c) = serial_conn c \<and>
   (float_0_002 \<le> rate \<and> rate \<le> 165871 \<and> is_connected s \<and> serial_conn s = Some ch \<and>
    is_open ch \<and> 0 \<le> slave_id s \<and> slave_id s \<le> 255 \<and>
    0 \<le> py_int (mul rate 100) \<and> py_int (mul rate 100) \<le> 65535 \<longrightarrow>
      (\<exists>frame. build_request (slave_id s) 6 0x0010 (Some (py_int (mul rate 100))) 1 = Inr frame \<and>
         map_option trace (serial_conn (snd (set_flow_rate mul env rate s))) =
           Some (trace ch @ Write frame # (if env = Write_raises then [] else [Read 256])))) \<and>
   (float_0_002 \<le> rate \<and> rate \<le> 165871 \<and> \<not> is_connected d \<longrightarrow>
      serial_conn (snd (set_flow_rate mul env rate d)) = serial_conn d) \<and>
   fst (set_flow_rate (*) (Replies [1, 6, 0, 16, 39, 16, 146, 51]) 100 connected_session) = True \<and>
   map_option trace (serial_conn (snd (set_flow_rate (*) (Replies [1, 6, 0, 16, 39, 16, 146, 51]) 100
      connected_session))) =
     Some [Write [0x01, 0x06, 0x00, 0x10, 0x27, 0x10, 0x92, 0x33], Read 256]"
proof (intro conjI impI)
  assume "x < 2 / 1000 \<or> 165871 < x"
  then show "set_flow_rate mul env x s = (False, add_log (ERROR, Flow_rate_out_of_range x) s)"
    by (rule set_flow_rate_low)
next
  assume "y < 1 / 1000 \<or> 127000 < y"
  then show "cmd_set_flow_rate fmt3 env y c = (False, add_log (ERROR, Flow_rate_out_of_range y) c)"
    by (rule cmd_set_flow_rate_low)
next
  show "serial_conn (add_log e s) = serial_conn s" "serial_conn (add_log e c) = serial_conn c"
    by (rule serial_conn_add_log)+
next
  assume a: "float_0_002 \<le> rate \<and> rate \<le> 165871 \<and> is_connected s \<and> serial_conn s = Some ch \<and>
    is_open ch \<and> 0 \<le> slave_id s \<and> slave_id s \<le> 255 \<and>
    0 \<le> py_int (mul rate 100) \<and> py_int (mul rate 100) \<le> 65535"
  show "\<exists>frame. build_request (slave_id s) 6 0x0010 (Some (py_int (mul rate 100))) 1 = Inr frame \<and>
         map_option trace (serial_conn (snd (set_flow_rate mul env rate s))) =
           Some (trace ch @ Write frame # (if env = Write_raises then [] else [Read 256]))"
    using a by (intro set_flow_rate_sent) simp_all
next
  assume "float_0_002 \<le> rate \<and> rate \<le> 165871 \<and> \<not> is_connected d"
  then show "serial_conn (snd (set_flow_rate mul env rate d)) = serial_conn d"
    by (simp add: set_flow_rate_disconnected)
next
  show "fst (set_flow_rate (*) (Replies [1, 6, 0, 16, 39, 16, 146, 51]) 100 connected_session) = True"
    "map_option trace (serial_conn (snd (set_flow_rate (*) (Replies [1, 6, 0, 16, 39, 16, 146, 51]) 100
      connected_session))) =
     Some [Write [0x01, 0x06, 0x00, 0x10, 0x27, 0x10, 0x92, 0x33], Read 256]"
    using set_flow_rate_100 by blast+
qed

lemma set_flow_rate_validation_instance:
  "set_flow_rate (*) Read_raises 200000 connected_session =
     (False, add_log (ERROR, Flow_rate_out_of_range 200000) connected_session) \<and>
   cmd_set_flow_rate (\<lambda>r. ''200000.000'') Read_raises 200000 (init_controller ''/dev/tty.usbserial'' 9600) =
     (False, add_log (ERROR, Flow_rate_out_of_range 200000) (init_controller ''/dev/tty.usbserial'' 9600)) \<and>
   (\<exists>frame. build_request 1 6 0x0010 (Some (py_int (100 * 100))) 1 = Inr frame \<and>
      map_option trace (serial_conn (snd (set_flow_rate (*) Read_raises 100 connected_session))) =
        Some ([] @ [Write frame, Read 256])) \<and>
   serial_conn (snd (set_flow_rate (*) Read_raises 100 (init_modbus_controller ''/dev/tty.usbserial'' 9600 1))) =
     serial_conn (init_modbus_controller ''/dev/tty.usbserial'' 9600 1)"
  using set_flow_rate_validation
      [of 200000 "(*)" Read_raises connected_session 200000 "\<lambda>r. ''200000.000''"
          "init_controller ''/dev/tty.usbserial'' 9600" _ 100 "\<lparr>is_open = True, trace = []\<rparr>"
          "init_modbus_controller ''/dev/tty.usbserial'' 9600 1"]
    witness_hyps connected_session_facts
  by simp

text \<open>
  An accepted rate whose scaled register value exceeds 65535 never reaches the channel:
  \<open>struct.pack\<close> raises in \<open>build_request\<close>, the handler of \<open>write_register\<close> logs the
  exception, and the method returns \<open>False\<close>, whatever the device would have answered.
\<close>

lemma build_request_6_overflow:
  "65535 < v \<Longrightarrow> build_request sl 6 addr (Some v) count = Inl StructError"
  by (simp add: build_request_def)

lemma set_flow_rate_overflow:
  assumes "float_0_002 \<le> rate \<and> rate \<le> 165871" "is_connected s"
    "65535 < py_int (mul rate 100)"
  shows "set_flow_rate mul env rate s =
           (False, add_log (ERROR, Error_writing_register StructError) s)"
proof -
  have "write_register env ''FLOW_RATE'' (py_int (mul rate 100)) s =
          (False, add_log (ERROR, Error_writing_register StructError) s)"
    using assms(2,3)
    by (simp add: write_register_known [OF _ FLOW_RATE_addr] write_transaction_overflow
          build_request_6_overflow)
  then show ?thesis using assms(1) by (simp add: set_flow_rate_def)
qed

subsection \<open>Claims on the transaction engine\<close>

text \<open>
  Claim C4, as amended.  On a connected session and for a known register: when no byte
  is read back, and equally when bytes are read back from which \<open>parse_response\<close>
  obtains no value, \<open>read_register\<close> returns \<open>None\<close> and \<open>write_register\<close> returns
  \<open>False\<close>.
\<close>

theorem failed_transaction_results:
  "is_connected s \<and> map_of REGISTERS name = Some addr \<and>
   (take 256 bs = [] \<or> fst (parse_response (take 256 bs)) = Inr None) \<longrightarrow>
     fst (read_register (Replies bs) name s) = None \<and>
     fst (write_register (Replies bs) name v s) = False"
  using read_transaction_no_value [of bs name addr s] write_transaction_no_value [of bs name addr v s]
  by (auto simp: read_register_known write_register_known)

theorem failed_transaction_results_witness:
  "is_connected connected_session \<and> map_of REGISTERS ''STATUS'' = Some 0x0050 \<and>
   fst (parse_response (take 256 [0x01, 0x03, 0x02, 0x00, 0x07, 0x00, 0x00])) = Inr None \<and>
   fst (read_register (Replies [0x01, 0x03, 0x02, 0x00, 0x07, 0x00, 0x00]) ''STATUS''
          connected_session) = None \<and>
   fst (write_register (Replies [0x01, 0x03, 0x02, 0x00, 0x07, 0x00, 0x00]) ''STATUS'' 1
          connected_session) = False"
  using failed_transaction_results
      [of connected_session "''STATUS''" "0x0050" "[0x01, 0x03, 0x02, 0x00, 0x07, 0x00, 0x00]" 1]
    connected_session_facts bad_crc_frame
  by blast

text \<open>
  Claim C4, as stated, fails: a time-out and an undecodable response with a valid CRC
  leave \<open>write_register\<close> with the same result, the same log and the same session;
  \<open>read_register\<close> returns \<open>None\<close> after a time-out and after a CRC mismatch alike.
\<close>

theorem failure_causes_conflated:
  "well_formed [0x01, 0x86, 0x02, 0xC3, 0xA1] \<and>
   write_register (Replies []) ''MODE'' 1 connected_session =
     write_register (Replies [0x01, 0x86, 0x02, 0xC3, 0xA1]) ''MODE'' 1 connected_session \<and>
   fst (read_register (Replies []) ''STATUS'' connected_session) =
     fst (read_register (Replies [0x01, 0x03, 0x02, 0x00, 0x07, 0x00, 0x00]) ''STATUS''
            connected_session)"
  using conflated_write conflated_write_valid conflated_read by simp

text \<open>
  Claim C5.  \<open>set_flow_rate\<close> checks its argument against a closed interval before any
  wire interaction, refuses a value outside it without channel I/O, and for every value
  inside it writes the value scaled by 100 to the FLOW_RATE register in exactly one
  transaction.  The code does not do the last for the rate 1000.0, which the range check
  and the docstring accept: on a connected session its scaled value 100000 does not fit
  the 16-bit field, \<open>struct.pack\<close> raises inside the \<open>try\<close> block of
  \<open>write_register\<close>, the exception is logged, \<open>False\<close> is returned and nothing is written
  to the channel.
\<close>

theorem set_flow_rate_not_sent:
  "float_0_002 \<le> 1000 \<and> (1000 :: rat) \<le> 165871 \<and> is_connected connected_session \<and>
   py_int (1000 * 100) = 100000 \<and>
   build_request (slave_id connected_session) 6 0x0010 (Some 100000) 1 = Inl StructError \<and>
   set_flow_rate (*) (Replies [1, 6, 0, 16, 39, 16, 146, 51]) 1000 connected_session =
     (False, add_log (ERROR, Error_writing_register StructError) connected_session) \<and>
   map_option trace (serial_conn (snd (set_flow_rate (*) (Replies [1, 6, 0, 16, 39, 16, 146, 51]) 1000
      connected_session))) = Some []"
  by code_simp

text \<open>
  Claim C7.  On a session that is not connected, \<open>read_register\<close> and \<open>write_register\<close>
  return \<open>None\<close> and \<open>False\<close>, log the not-connected error and leave the channel as
  it is; on a connected session and a name outside the register table they return the
  same values, log the unknown-register error and leave the channel as it is.
\<close>

theorem register_access_preconditions:
  "(\<not> is_connected d \<longrightarrow>
      read_register env name d = (None, add_log (ERROR, Not_connected) d) \<and>
      write_register env name v d = (False, add_log (ERROR, Not_connected) d)) \<and>
   (is_connected s \<and>
    other \<notin> {''MODE'', ''FLOW_RATE'', ''VOLUME'', ''SYRINGE_DIA'', ''START_STOP'', ''STATUS'',
              ''DIRECTION'', ''LINEAR_SPEED''} \<longrightarrow>
      read_register env other s = (None, add_log (ERROR, Unknown_register other) s) \<and>
      write_register env other v s = (False, add_log (ERROR, Unknown_register other) s)) \<and>
   serial_conn (add_log e s) = serial_conn s \<and> is_connected (add_log e s) = is_connected s"
proof (intro conjI impI)
  assume "\<not> is_connected d"
  then show "read_register env name d = (None, add_log (ERROR, Not_connected) d)"
    and "write_register env name v d = (False, add_log (ERROR, Not_connected) d)"
    by (rule read_register_not_connected, rule write_register_not_connected)
next
  assume a: "is_connected s \<and>
    other \<notin> {''MODE'', ''FLOW_RATE'', ''VOLUME'', ''SYRINGE_DIA'', ''START_STOP'', ''STATUS'',
              ''DIRECTION'', ''LINEAR_SPEED''}"
  then have n: "map_of REGISTERS other = None" by (intro REGISTERS_unknown) simp
  show "read_register env other s = (None, add_log (ERROR, Unknown_register other) s)"
    using a n by (intro read_register_unknown) simp_all
  show "write_register env other v s = (False, add_log (ERROR, Unknown_register other) s)"
    using a n by (intro write_register_unknown) simp_all
next
  show "serial_conn (add_log e s) = serial_conn s" by (rule serial_conn_add_log)
  show "is_connected (add_log e s) = is_connected s" by (rule is_connected_add_log)
qed

theorem register_access_preconditions_witness:
  "read_register (Replies [1, 3, 2, 0, 7, 249, 134]) ''STATUS''
      (init_modbus_controller ''/dev/tty.usbserial'' 9600 1) =
     (None, add_log (ERROR, Not_connected) (init_modbus_controller ''/dev/tty.usbserial'' 9600 1)) \<and>
   write_register (Replies [1, 6, 0, 64, 0, 1, 73, 222]) ''PRESSURE'' 1 connected_session =
     (False, add_log (ERROR, Unknown_register ''PRESSURE'') connected_session)"
proof -
  have h: "\<not> is_connected (init_modbus_controller ''/dev/tty.usbserial'' 9600 1)"
    by (simp add: init_modbus_controller_def)
  have k: "is_connected connected_session" using connected_session_facts by blast
  have "read_register (Replies [1, 3, 2, 0, 7, 249, 134]) ''STATUS''
      (init_modbus_controller ''/dev/tty.usbserial'' 9600 1) =
     (None, add_log (ERROR, Not_connected) (init_modbus_controller ''/dev/tty.usbserial'' 9600 1))"
    using h register_access_preconditions
      [of "init_modbus_controller ''/dev/tty.usbserial'' 9600 1" "Replies [1, 3, 2, 0, 7, 249, 134]"
          "''STATUS''"]
    by blast
  moreover have "write_register (Replies [1, 6, 0, 64, 0, 1, 73, 222]) ''PRESSURE'' 1 connected_session =
     (False, add_log (ERROR, Unknown_register ''PRESSURE'') connected_session)"
    using k register_access_preconditions
      [of _ "Replies [1, 6, 0, 64, 0, 1, 73, 222]" _ 1 connected_session "''PRESSURE''"]
    by simp
  ultimately show ?thesis by blast
qed



text \<open>
  Claim C9.  \<open>save_to_memory\<close> and \<open>load_from_memory\<close> return \<open>True\<close> exactly for the slots
  1 to 60 (so for 1 and 60, and not for 0 and 61), log a range error otherwise, and in
  no case touch the channel.
\<close>

theorem memory_slot_range:
  "save_to_memory slot s =
     (1 \<le> slot \<and> slot \<le> 60,
      add_log (if 1 \<le> slot \<and> slot \<le> 60 then (INFO, Saving_to_memory slot)
               else (ERROR, Invalid_memory_slot slot)) s) \<and>
   load_from_memory slot s =
     (1 \<le> slot \<and> slot \<le> 60,
      add_log (if 1 \<le> slot \<and> slot \<le> 60 then (INFO, Loading_from_memory slot)
               else (ERROR, Invalid_memory_slot slot)) s) \<and>
   serial_conn (snd (save_to_memory slot s)) = serial_conn s \<and>
   serial_conn (snd (load_from_memory slot s)) = serial_conn s \<and>
   fst (save_to_memory 1 s) \<and> fst (save_to_memory 60 s) \<and>
   \<not> fst (save_to_memory 0 s) \<and> \<not> fst (save_to_memory 61 s) \<and>
   fst (load_from_memory 1 s) \<and> fst (load_from_memory 60 s) \<and>
   \<not> fst (load_from_memory 0 s) \<and> \<not> fst (load_from_memory 61 s)"
  by (simp add: save_to_memory_def load_from_memory_def serial_conn_add_log)

end
